theory Spec2Isabelle
  imports
    Complex_Main
    "HOL-Library.Sublist"
    "HOL-Library.Multiset"
    "HOL-Library.Char_ord"
    "HOL-Library.List_Lexorder"
begin

section \<open>Subject Hierarchy Explorer: the co-occurrence engine of app.py\<close>

text \<open>
  Conventions of the embedding.
  \<^item> A Python \<open>str\<close> is a \<open>string\<close>: a list of code points below 256 (Latin-1), compared
    lexicographically by code point as Python compares strings.
  \<^item> A JSON number read into a Python \<open>float\<close> is the rational number it denotes
    (\<open>rat\<close>): the engine only compares these values, and the comparison of finite floats
    is the comparison of the rationals they denote. NaN and infinities are outside the model.
  \<^item> A Python \<open>int\<close> is an \<open>int\<close>.
  \<^item> A \<open>dict\<close> is an association list in insertion order (iteration order matters in
    \<open>get_concept_tree\<close> and \<open>build_hierarchy_tree\<close>), looked up with \<open>map_of\<close>.
  \<^item> An exception is a value \<open>Inl e\<close> of a sum type.
\<close>

subsection \<open>Python built-ins used by the engine\<close>

text \<open>\<open>str.lower()\<close> on code points below 256: A-Z and the accented capitals
  0xC0-0xDE (but not the multiplication sign 0xD7) move up by 32.\<close>

definition lower_char :: "char \<Rightarrow> char" where
  "lower_char c =
     (let n = (of_char c :: nat)
      in if (65 \<le> n \<and> n \<le> 90) \<or> (192 \<le> n \<and> n \<le> 222 \<and> n \<noteq> 215)
         then char_of (n + 32) else c)"

definition lower :: "string \<Rightarrow> string" where
  "lower s = map lower_char s"

text \<open>The characters \<open>str.strip()\<close> removes: TAB, LF, VT, FF, CR, FS, GS, RS, US,
  space, NEL (0x85) and the no-break space (0xA0).\<close>

definition is_space :: "char \<Rightarrow> bool" where
  "is_space c = ((of_char c :: nat) \<in> {9, 10, 11, 12, 13, 28, 29, 30, 31, 32, 133, 160})"

definition strip :: "string \<Rightarrow> string" where
  "strip s = rev (dropWhile is_space (rev (dropWhile is_space s)))"

text \<open>\<open>a in b\<close> on strings is \<^const>\<open>sublist\<close> (a contiguous run of \<open>b\<close>).
  \<open>list.sort(key=..., reverse=...)\<close> is a stable sort; with \<open>reverse=True\<close> CPython
  reverses the list, sorts it stably in ascending order and reverses it again, so that
  equal keys keep their original order in both directions.\<close>

definition py_sort :: "('a \<Rightarrow> 'k::linorder) \<Rightarrow> bool \<Rightarrow> 'a list \<Rightarrow> 'a list" where
  "py_sort key reverse xs =
     (if reverse then rev (sort_key key (rev xs)) else sort_key key xs)"

text \<open>\<open>xs[:limit]\<close>: a negative \<open>limit\<close> counts from the end of the list.\<close>

definition slice_to :: "'a list \<Rightarrow> int \<Rightarrow> 'a list" where
  "slice_to xs limit =
     (if 0 \<le> limit then take (nat limit) xs
      else take (length xs - nat (- limit)) xs)"

text \<open>The exceptions the modelled code can raise.\<close>

datatype py_error =
    KeyError string
  | TypeError
  | FileNotFoundError
  | OSError
  | JSONDecodeError

text \<open>\<open>d[k].append(v)\<close> on a \<open>defaultdict(list)\<close>: a new key goes to the end of the
  iteration order. \<open>dict_get\<close> is the read \<open>d.get(k, [])\<close> (and \<open>d[k]\<close> on a
  \<open>defaultdict(list)\<close>, whose missing keys read as the empty list).\<close>

fun dict_append :: "'k \<Rightarrow> 'v \<Rightarrow> ('k \<times> 'v list) list \<Rightarrow> ('k \<times> 'v list) list" where
  "dict_append k v [] = [(k, [v])]"
| "dict_append k v ((k', vs) # rest) =
     (if k = k' then (k', vs @ [v]) # rest else (k', vs) # dict_append k v rest)"

definition dict_get :: "('k \<times> 'v list) list \<Rightarrow> 'k \<Rightarrow> 'v list" where
  "dict_get d k = (case map_of d k of None \<Rightarrow> [] | Some vs \<Rightarrow> vs)"

text \<open>\<open>sep.join(lines)\<close>.\<close>

fun join :: "string \<Rightarrow> string list \<Rightarrow> string" where
  "join sep [] = []"
| "join sep [x] = x"
| "join sep (x # y # ys) = x @ sep @ join sep (y # ys)"

text \<open>\<open>str(n)\<close> for an \<open>int\<close>, as an f-string formats it.\<close>

function str_nat :: "nat \<Rightarrow> string" where
  "str_nat n =
     (if n < 10 then [char_of (48 + n)]
      else str_nat (n div 10) @ [char_of (48 + n mod 10)])"
  by pat_completeness auto
termination
  by (relation "measure id") auto

declare str_nat.simps [simp del]

definition str_int :: "int \<Rightarrow> string" where
  "str_int i = (if i < 0 then CHR ''-'' # str_nat (nat (- i)) else str_nat (nat i))"

text \<open>The float operations of the export are library code whose results depend on
  binary floating point; they are parameters of the model: \<open>fmul x y\<close> is the float
  product \<open>x * y\<close>, \<open>fround x n\<close> is \<open>round(x, n)\<close>, and \<open>fstr x\<close> is the text an
  f-string gives for the float \<open>x\<close>.\<close>

record float_ops =
  fmul :: "rat \<Rightarrow> rat \<Rightarrow> rat"
  fround :: "rat \<Rightarrow> nat \<Rightarrow> rat"
  fstr :: "rat \<Rightarrow> string"

subsection \<open>Data model\<close>

record relationship =
  narrower_id :: string
  broader_id :: string
  narrower_name :: string
  broader_name :: string
  narrower_count :: int
  broader_count :: int
  cooc_count :: int
  p_broader_given_narrower :: rat
  p_narrower_given_broader :: rat
  asymmetry :: rat

text \<open>The fields of \<open>CooccurrenceEngine\<close>; \<open>loaded\<close> is \<open>self._loaded\<close>.\<close>

record engine =
  concept_names :: "(string \<times> string) list"
  concept_counts :: "(string \<times> int) list"
  total_citations :: int
  relationships :: "relationship list"
  loaded :: bool

text \<open>\<open>CooccurrenceEngine.__init__\<close>.\<close>

definition init_engine :: engine where
  "init_engine =
     \<lparr>concept_names = [], concept_counts = [], total_citations = 0,
      relationships = [], loaded = False\<rparr>"

subsection \<open>\<open>load_precomputed\<close>\<close>

text \<open>What \<open>open(path)\<close> followed by \<open>json.load\<close> can give: the file is missing, it
  cannot be read, it is not JSON, or it parses to a document. A document is a JSON object,
  of which the loader reads four keys (each present or not), or some other JSON value.
  The loader does not inspect the values it stores, so a present key is modelled with a
  value of the shape the engine expects.\<close>

record json_object =
  doc_concept_names :: "(string \<times> string) list option"
  doc_concept_counts :: "(string \<times> int) list option"
  doc_total_citations :: "int option"
  doc_relationships :: "relationship list option"

datatype json_document = JsonObject json_object | JsonOther

datatype file_outcome = Missing | Unreadable | Malformed | Parsed json_document

text \<open>The result is \<open>Inr\<close> of the engine after a normal return, or \<open>Inl\<close> of the
  exception and the engine as the exception leaves it: the four assignments run in
  order, so a key that is missing leaves the earlier ones assigned. Subscripting a
  document that is not an object raises \<open>TypeError\<close>.\<close>

definition load_precomputed ::
  "(string \<Rightarrow> file_outcome) \<Rightarrow> string \<Rightarrow> engine \<Rightarrow> (py_error \<times> engine) + engine" where
  "load_precomputed files path eng =
     (if loaded eng then Inr eng
      else case files path of
        Missing \<Rightarrow> Inl (FileNotFoundError, eng)
      | Unreadable \<Rightarrow> Inl (OSError, eng)
      | Malformed \<Rightarrow> Inl (JSONDecodeError, eng)
      | Parsed JsonOther \<Rightarrow> Inl (TypeError, eng)
      | Parsed (JsonObject d) \<Rightarrow>
          (case doc_concept_names d of
             None \<Rightarrow> Inl (KeyError ''concept_names'', eng)
           | Some names \<Rightarrow>
               (let eng1 = eng\<lparr>concept_names := names\<rparr>
                in case doc_concept_counts d of
                     None \<Rightarrow> Inl (KeyError ''concept_counts'', eng1)
                   | Some counts \<Rightarrow>
                       (let eng2 = eng1\<lparr>concept_counts := counts\<rparr>
                        in case doc_total_citations d of
                             None \<Rightarrow> Inl (KeyError ''total_citations'', eng2)
                           | Some citations \<Rightarrow>
                               (let eng3 = eng2\<lparr>total_citations := citations\<rparr>
                                in case doc_relationships d of
                                     None \<Rightarrow> Inl (KeyError ''relationships'', eng3)
                                   | Some rels \<Rightarrow>
                                       Inr (eng3\<lparr>relationships := rels,
                                                 loaded := True\<rparr>))))))"

subsection \<open>\<open>get_filtered_relationships\<close>\<close>

text \<open>\<open>concept_filter.lower().strip() if concept_filter else None\<close>: an absent or empty
  filter gives \<open>None\<close>.\<close>

definition concept_filter_lower :: "string option \<Rightarrow> string option" where
  "concept_filter_lower concept_filter =
     (case concept_filter of
        None \<Rightarrow> None
      | Some s \<Rightarrow> if s \<noteq> [] then Some (strip (lower s)) else None)"

text \<open>The body of the filtering loop: \<open>False\<close> is \<open>continue\<close>, \<open>True\<close> reaches
  \<open>results.append(r)\<close>. The test \<open>if concept_filter_lower:\<close> is false for \<open>None\<close> and
  for the empty string.\<close>

definition keeps :: "int \<Rightarrow> int \<Rightarrow> rat \<Rightarrow> rat \<Rightarrow> string option \<Rightarrow> relationship \<Rightarrow> bool" where
  "keeps min_narrower_count min_cooc min_p_broader min_asymmetry cfl r =
     (if narrower_count r < min_narrower_count then False
      else if cooc_count r < min_cooc then False
      else if p_broader_given_narrower r < min_p_broader then False
      else if asymmetry r < min_asymmetry then False
      else (case cfl of
              None \<Rightarrow> True
            | Some f \<Rightarrow>
                if f \<noteq> [] then
                  (if \<not> sublist f (lower (narrower_name r)) \<and>
                      \<not> sublist f (lower (broader_name r))
                   then False else True)
                else True))"

text \<open>The \<open>if/elif\<close> chain on \<open>sort_by\<close>; an unknown field leaves the list unsorted.\<close>

definition sort_results :: "string \<Rightarrow> bool \<Rightarrow> relationship list \<Rightarrow> relationship list" where
  "sort_results sort_by reverse results =
     (if sort_by = ''asymmetry'' then py_sort asymmetry reverse results
      else if sort_by = ''p_broader_given_narrower'' then
        py_sort p_broader_given_narrower reverse results
      else if sort_by = ''cooc_count'' then py_sort cooc_count reverse results
      else if sort_by = ''narrower_name'' then
        py_sort (\<lambda>r. lower (narrower_name r)) reverse results
      else if sort_by = ''broader_name'' then
        py_sort (\<lambda>r. lower (broader_name r)) reverse results
      else results)"

text \<open>The list \<open>results\<close> as it stands just before the \<open>return\<close>: filtered and sorted,
  not yet truncated.\<close>

definition filtered_sorted ::
  "engine \<Rightarrow> int \<Rightarrow> int \<Rightarrow> rat \<Rightarrow> rat \<Rightarrow> string option \<Rightarrow> string \<Rightarrow> bool \<Rightarrow> relationship list" where
  "filtered_sorted eng min_narrower_count min_cooc min_p_broader min_asymmetry
       concept_filter sort_by sort_desc =
     sort_results sort_by sort_desc
       (filter (keeps min_narrower_count min_cooc min_p_broader min_asymmetry
                  (concept_filter_lower concept_filter))
          (relationships eng))"

definition get_filtered_relationships ::
  "engine \<Rightarrow> int \<Rightarrow> int \<Rightarrow> rat \<Rightarrow> rat \<Rightarrow> string option \<Rightarrow> string \<Rightarrow> bool \<Rightarrow> int
     \<Rightarrow> relationship list \<times> int" where
  "get_filtered_relationships eng min_narrower_count min_cooc min_p_broader min_asymmetry
       concept_filter sort_by sort_desc limit =
     (let results = filtered_sorted eng min_narrower_count min_cooc min_p_broader
                      min_asymmetry concept_filter sort_by sort_desc
      in (slice_to results limit, int (length results)))"

subsection \<open>\<open>get_concept_tree\<close>\<close>

text \<open>An entry of \<open>matches\<close>: the dict with the keys \<open>id\<close>, \<open>name\<close>, \<open>count\<close>.\<close>

record suggestion =
  sug_id :: string
  sug_name :: string
  sug_count :: int

text \<open>The two shapes of the returned dict: with the key \<open>suggestions\<close> (and three empty
  lists), or with \<open>concept_id\<close>, \<open>concept_name\<close>, \<open>concept_count\<close> and the three
  lists \<open>broader\<close>, \<open>narrower\<close>, \<open>symmetric\<close>.\<close>

datatype concept_tree =
    SuggestionsResponse "suggestion list" "relationship list" "relationship list"
      "relationship list"
  | ConceptResponse string string int "relationship list" "relationship list"
      "relationship list"

text \<open>The first loop: the ID of the first concept whose lowercased name is the query.\<close>

fun find_concept_id :: "(string \<times> string) list \<Rightarrow> string \<Rightarrow> string option" where
  "find_concept_id [] q = None"
| "find_concept_id ((cbid, name) # rest) q =
     (if lower name = q then Some cbid else find_concept_id rest q)"

text \<open>\<open>self.concept_counts.get(cbid, 0)\<close>.\<close>

definition get_count :: "(string \<times> int) list \<Rightarrow> string \<Rightarrow> int" where
  "get_count counts cbid = (case map_of counts cbid of None \<Rightarrow> 0 | Some c \<Rightarrow> c)"

text \<open>The second loop (the fallback): every concept whose lowercased name contains the
  query.\<close>

definition find_matches :: "engine \<Rightarrow> string \<Rightarrow> suggestion list" where
  "find_matches eng q =
     map (\<lambda>(cbid, name).
            \<lparr>sug_id = cbid, sug_name = name,
             sug_count = get_count (concept_counts eng) cbid\<rparr>)
       (filter (\<lambda>(cbid, name). sublist q (lower name)) (concept_names eng))"

text \<open>The float literal \<open>0.2\<close> denotes the double nearest to one fifth.\<close>

definition float_0_2 :: rat where
  "float_0_2 = 3602879701896397 / 18014398509481984"

text \<open>The first loop over the relationships, one step per relationship: the state is
  the pair of the lists \<open>broader\<close> and \<open>narrower\<close>.\<close>

definition passes_filters :: "int \<Rightarrow> int \<Rightarrow> relationship \<Rightarrow> bool" where
  "passes_filters min_cooc min_count r =
     (cooc_count r \<ge> min_cooc \<and> narrower_count r \<ge> min_count)"

definition directed_step ::
  "string \<Rightarrow> rat \<Rightarrow> rat \<Rightarrow> int \<Rightarrow> int \<Rightarrow> relationship
     \<Rightarrow> relationship list \<times> relationship list \<Rightarrow> relationship list \<times> relationship list" where
  "directed_step concept_id min_p_broader min_asymmetry min_cooc min_count r st =
     (case st of (broader, narrower) \<Rightarrow>
        if \<not> passes_filters min_cooc min_count r then (broader, narrower)
        else if narrower_id r = concept_id then
          (if p_broader_given_narrower r \<ge> min_p_broader \<and> asymmetry r \<ge> min_asymmetry
           then (broader @ [r], narrower) else (broader, narrower))
        else if broader_id r = concept_id then
          (if p_broader_given_narrower r \<ge> min_p_broader \<and> asymmetry r \<ge> min_asymmetry
           then (broader, narrower @ [r]) else (broader, narrower))
        else (broader, narrower))"

definition directed_loop ::
  "string \<Rightarrow> rat \<Rightarrow> rat \<Rightarrow> int \<Rightarrow> int \<Rightarrow> relationship list
     \<Rightarrow> relationship list \<times> relationship list" where
  "directed_loop concept_id min_p_broader min_asymmetry min_cooc min_count rs =
     fold (directed_step concept_id min_p_broader min_asymmetry min_cooc min_count) rs
       ([], [])"

text \<open>The second loop over the relationships: the state is the list \<open>symmetric\<close>.\<close>

definition symmetric_step ::
  "string \<Rightarrow> rat \<Rightarrow> int \<Rightarrow> relationship \<Rightarrow> relationship list \<Rightarrow> relationship list" where
  "symmetric_step concept_id min_asymmetry min_cooc r symmetric =
     (if cooc_count r < min_cooc then symmetric
      else if narrower_id r = concept_id \<or> broader_id r = concept_id then
        (if asymmetry r < min_asymmetry \<and> p_broader_given_narrower r \<ge> float_0_2
         then symmetric @ [r] else symmetric)
      else symmetric)"

definition symmetric_loop ::
  "string \<Rightarrow> rat \<Rightarrow> int \<Rightarrow> relationship list \<Rightarrow> relationship list" where
  "symmetric_loop concept_id min_asymmetry min_cooc rs =
     fold (symmetric_step concept_id min_asymmetry min_cooc) rs []"

text \<open>\<open>if not concept_id\<close> holds for \<open>None\<close> and for the empty string. The lookups
  \<open>self.concept_names[concept_id]\<close> and \<open>self.concept_counts[concept_id]\<close> raise
  \<open>KeyError\<close> on a missing key.\<close>

definition get_concept_tree ::
  "engine \<Rightarrow> string \<Rightarrow> rat \<Rightarrow> rat \<Rightarrow> int \<Rightarrow> int \<Rightarrow> py_error + concept_tree" where
  "get_concept_tree eng concept_name min_p_broader min_asymmetry min_cooc min_count =
     (let concept_name_lower = strip (lower concept_name);
          found = find_concept_id (concept_names eng) concept_name_lower
      in if found = None \<or> found = Some [] then
           Inr (SuggestionsResponse
                  (take 20 (py_sort sug_count True (find_matches eng concept_name_lower)))
                  [] [] [])
         else
           (let concept_id = the found;
                (broader0, narrower0) =
                   directed_loop concept_id min_p_broader min_asymmetry min_cooc min_count
                     (relationships eng);
                symmetric0 =
                   symmetric_loop concept_id min_asymmetry min_cooc (relationships eng);
                broader = py_sort p_broader_given_narrower True broader0;
                narrower = py_sort p_broader_given_narrower True narrower0;
                symmetric = py_sort cooc_count True symmetric0
            in case map_of (concept_names eng) concept_id of
                 None \<Rightarrow> Inl (KeyError concept_id)
               | Some name \<Rightarrow>
                   (case map_of (concept_counts eng) concept_id of
                      None \<Rightarrow> Inl (KeyError concept_id)
                    | Some cnt \<Rightarrow>
                        Inr (ConceptResponse concept_id name cnt
                               (take 50 broader) (take 50 narrower) (take 30 symmetric)))))"

text \<open>The route \<open>/api/concept_tree\<close>: the query parameter \<open>concept\<close> defaults to the
  empty string, and \<open>if not concept\<close> answers 400. An exception of the engine is a 500.\<close>

datatype http_response =
    BadRequest string
  | ServerError py_error
  | Ok concept_tree

definition api_concept_tree ::
  "engine \<Rightarrow> string \<Rightarrow> rat \<Rightarrow> rat \<Rightarrow> int \<Rightarrow> int \<Rightarrow> http_response" where
  "api_concept_tree eng concept min_p min_asym min_cooc min_count =
     (if concept = [] then BadRequest ''No concept specified''
      else case get_concept_tree eng concept min_p min_asym min_cooc min_count of
             Inl e \<Rightarrow> ServerError e
           | Inr tree \<Rightarrow> Ok tree)"

subsection \<open>\<open>build_hierarchy_tree\<close>\<close>

text \<open>An entry of a \<open>children_of\<close> list: the dict with the keys \<open>id\<close>, \<open>name\<close>,
  \<open>count\<close>, \<open>p\<close>, \<open>asymmetry\<close>.\<close>

record child_entry =
  child_id :: string
  child_name :: string
  child_count :: int
  child_p :: rat
  child_asymmetry :: rat

text \<open>A node below a root is \<open>{**child, 'children': subtree}\<close>; a node of the returned
  list is \<open>{**root, 'children': subtree}\<close> with the keys \<open>id\<close>, \<open>name\<close>, \<open>count\<close>.\<close>

datatype tree = Tree child_entry "tree list"

record root_entry =
  root_id :: string
  root_name :: string
  root_count :: int

datatype root_tree = RootTree root_entry "tree list"

definition admitted :: "rat \<Rightarrow> rat \<Rightarrow> int \<Rightarrow> int \<Rightarrow> relationship \<Rightarrow> bool" where
  "admitted min_p_broader min_asymmetry min_cooc min_count r =
     (p_broader_given_narrower r \<ge> min_p_broader \<and>
      asymmetry r \<ge> min_asymmetry \<and>
      cooc_count r \<ge> min_cooc \<and>
      narrower_count r \<ge> min_count)"

text \<open>The first loop, one step per relationship: the state is \<open>children_of\<close> and
  \<open>has_parent\<close>.\<close>

definition admit_step ::
  "rat \<Rightarrow> rat \<Rightarrow> int \<Rightarrow> int \<Rightarrow> relationship
     \<Rightarrow> (string \<times> child_entry list) list \<times> string set
     \<Rightarrow> (string \<times> child_entry list) list \<times> string set" where
  "admit_step min_p_broader min_asymmetry min_cooc min_count r st =
     (case st of (children_of, has_parent) \<Rightarrow>
        if admitted min_p_broader min_asymmetry min_cooc min_count r then
          (dict_append (broader_id r)
             \<lparr>child_id = narrower_id r, child_name = narrower_name r,
              child_count = narrower_count r, child_p = p_broader_given_narrower r,
              child_asymmetry = asymmetry r\<rparr> children_of,
           insert (narrower_id r) has_parent)
        else (children_of, has_parent))"

definition admit_loop ::
  "rat \<Rightarrow> rat \<Rightarrow> int \<Rightarrow> int \<Rightarrow> relationship list
     \<Rightarrow> (string \<times> child_entry list) list \<times> string set" where
  "admit_loop min_p_broader min_asymmetry min_cooc min_count rs =
     fold (admit_step min_p_broader min_asymmetry min_cooc min_count) rs ([], {})"

text \<open>\<open>children_of[parent_id].sort(key=lambda x: x['p'], reverse=True)\<close> for every
  key.\<close>

definition sort_children ::
  "(string \<times> child_entry list) list \<Rightarrow> (string \<times> child_entry list) list" where
  "sort_children children_of = map (\<lambda>(k, cs). (k, py_sort child_p True cs)) children_of"

text \<open>The loop that collects the roots; \<open>self.concept_names[parent_id]\<close> and
  \<open>self.concept_counts[parent_id]\<close> raise \<open>KeyError\<close> on a missing key.\<close>

fun collect_roots ::
  "engine \<Rightarrow> string set \<Rightarrow> string list \<Rightarrow> py_error + root_entry list" where
  "collect_roots eng has_parent [] = Inr []"
| "collect_roots eng has_parent (parent_id # rest) =
     (if parent_id \<notin> has_parent then
        (case map_of (concept_names eng) parent_id of
           None \<Rightarrow> Inl (KeyError parent_id)
         | Some name \<Rightarrow>
             (case map_of (concept_counts eng) parent_id of
                None \<Rightarrow> Inl (KeyError parent_id)
              | Some cnt \<Rightarrow>
                  (case collect_roots eng has_parent rest of
                     Inl e \<Rightarrow> Inl e
                   | Inr roots \<Rightarrow>
                       Inr (\<lparr>root_id = parent_id, root_name = name, root_count = cnt\<rparr>
                            # roots))))
      else collect_roots eng has_parent rest)"

text \<open>The nested function \<open>build_subtree(node_id, depth, visited)\<close>. The guard is
  tested when the function is entered, that is after the caller has decided to append
  the node; \<open>visited.add(node_id)\<close> followed by \<open>visited.copy()\<close> hands
  \<open>insert node_id visited\<close> to every child.\<close>

function build_subtree ::
  "(string \<times> child_entry list) list \<Rightarrow> string \<Rightarrow> nat \<Rightarrow> string set \<Rightarrow> tree list" where
  "build_subtree children_of node_id depth visited =
     (if node_id \<in> visited \<or> depth > 5 then []
      else map (\<lambda>child.
                  Tree child
                    (build_subtree children_of (child_id child) (depth + 1)
                       (insert node_id visited)))
             (dict_get children_of node_id))"
  by pat_completeness auto
termination
  by (relation "measure (\<lambda>(children_of, node_id, depth, visited). 6 - depth)") auto

declare build_subtree.simps [simp del]

text \<open>The last loop: a root whose subtree is empty is dropped.\<close>

fun attach_subtrees ::
  "(string \<times> child_entry list) list \<Rightarrow> root_entry list \<Rightarrow> root_tree list" where
  "attach_subtrees children_of [] = []"
| "attach_subtrees children_of (root_node # rest) =
     (let subtree = build_subtree children_of (root_id root_node) 0 {}
      in if subtree \<noteq> [] then
           RootTree root_node subtree # attach_subtrees children_of rest
         else attach_subtrees children_of rest)"

definition build_hierarchy_tree ::
  "engine \<Rightarrow> rat \<Rightarrow> rat \<Rightarrow> int \<Rightarrow> int \<Rightarrow> py_error + root_tree list" where
  "build_hierarchy_tree eng min_p_broader min_asymmetry min_cooc min_count =
     (case admit_loop min_p_broader min_asymmetry min_cooc min_count (relationships eng) of
        (children_of0, has_parent) \<Rightarrow>
          (let children_of = sort_children children_of0
           in case collect_roots eng has_parent (map fst children_of) of
                Inl e \<Rightarrow> Inl e
              | Inr roots \<Rightarrow>
                  Inr (attach_subtrees children_of (py_sort root_count True roots))))"

text \<open>Reading a returned forest: every node with its depth (a root is at depth 0), and
  every path of concept IDs from a root to a leaf.\<close>

fun tree_nodes :: "nat \<Rightarrow> tree \<Rightarrow> (string \<times> nat) list" where
  "tree_nodes d (Tree c ts) = (child_id c, d) # concat (map (tree_nodes (d + 1)) ts)"

fun root_nodes :: "root_tree \<Rightarrow> (string \<times> nat) list" where
  "root_nodes (RootTree r ts) = (root_id r, 0) # concat (map (tree_nodes 1) ts)"

definition forest_nodes :: "root_tree list \<Rightarrow> (string \<times> nat) list" where
  "forest_nodes forest = concat (map root_nodes forest)"

fun tree_paths :: "tree \<Rightarrow> string list list" where
  "tree_paths (Tree c ts) =
     (if ts = [] then [[child_id c]]
      else map ((#) (child_id c)) (concat (map tree_paths ts)))"

fun root_paths :: "root_tree \<Rightarrow> string list list" where
  "root_paths (RootTree r ts) =
     (if ts = [] then [[root_id r]]
      else map ((#) (root_id r)) (concat (map tree_paths ts)))"

definition forest_paths :: "root_tree list \<Rightarrow> string list list" where
  "forest_paths forest = concat (map root_paths forest)"

subsection \<open>The route \<open>/api/export_yaml\<close>\<close>

text \<open>The loop \<open>groups[r['broader_name']].append(r)\<close>.\<close>

definition export_groups :: "relationship list \<Rightarrow> (string \<times> relationship list) list" where
  "export_groups results = fold (\<lambda>r groups. dict_append (broader_name r) r groups) results []"

text \<open>The five lines \<open>lines\<close> starts with.\<close>

definition export_header :: "float_ops \<Rightarrow> rat \<Rightarrow> rat \<Rightarrow> int \<Rightarrow> int \<Rightarrow> int \<Rightarrow> string list" where
  "export_header ops min_p min_asym min_cooc min_count total_count =
     [''# CB Co-occurrence Relationships (Empirically Derived)'',
      ''# Filters: P(broader|narrower) >= '' @ fstr ops min_p @ '', asymmetry >= '' @
        fstr ops min_asym @ '', co-occurrences >= '' @ str_int min_cooc @
        '', min citations >= '' @ str_int min_count,
      ''# Total relationships: '' @ str_int total_count,
      [],
      ''cb_cooccurrence:'']"

text \<open>One pass of the loop over \<open>sorted(groups.keys())\<close>, in two halves: the sorted
  \<open>narrower_list\<close> of the group, and the lines appended for it.\<close>

definition export_blocks :: "relationship list \<Rightarrow> (string \<times> relationship list) list" where
  "export_blocks results =
     (let groups = export_groups results
      in map (\<lambda>name. (name, py_sort p_broader_given_narrower True (dict_get groups name)))
           (sort (map fst groups)))"

definition member_line :: "float_ops \<Rightarrow> relationship \<Rightarrow> string" where
  "member_line ops r =
     (let pct = fround ops (fmul ops (p_broader_given_narrower r) 100) 1
      in ''      - '' @ narrower_name r @ ''  # '' @ fstr ops pct @ ''%'')"

definition block_lines :: "float_ops \<Rightarrow> string \<times> relationship list \<Rightarrow> string list" where
  "block_lines ops blk =
     (case blk of (name, narrower_list) \<Rightarrow>
        [''  - broader: '' @ name, ''    narrower:''] @
        map (member_line ops) narrower_list @ [[]])"

text \<open>The results the route asks the engine for, and the lines of the text it returns
  (with status 200).\<close>

definition export_results :: "engine \<Rightarrow> rat \<Rightarrow> rat \<Rightarrow> int \<Rightarrow> int \<Rightarrow> relationship list \<times> int" where
  "export_results eng min_p min_asym min_cooc min_count =
     get_filtered_relationships eng min_count min_cooc min_p min_asym None
       ''broader_name'' False 5000"

definition export_lines :: "float_ops \<Rightarrow> engine \<Rightarrow> rat \<Rightarrow> rat \<Rightarrow> int \<Rightarrow> int \<Rightarrow> string list" where
  "export_lines ops eng min_p min_asym min_cooc min_count =
     (case export_results eng min_p min_asym min_cooc min_count of
        (results, total_count) \<Rightarrow>
          export_header ops min_p min_asym min_cooc min_count total_count @
          concat (map (block_lines ops) (export_blocks results)))"

definition api_export_yaml :: "float_ops \<Rightarrow> engine \<Rightarrow> rat \<Rightarrow> rat \<Rightarrow> int \<Rightarrow> int \<Rightarrow> string" where
  "api_export_yaml ops eng min_p min_asym min_cooc min_count =
     join [CHR 0x0A] (export_lines ops eng min_p min_asym min_cooc min_count)"

subsection \<open>The properties, in the words of the specification\<close>

text \<open>A relationship satisfies a filter set: each threshold is met and, when a non-empty
  text filter is given, the lowercased and stripped filter occurs in the lowercased
  narrower name or in the lowercased broader name.\<close>

definition satisfies_filter ::
  "int \<Rightarrow> int \<Rightarrow> rat \<Rightarrow> rat \<Rightarrow> string option \<Rightarrow> relationship \<Rightarrow> bool" where
  "satisfies_filter min_narrower_count min_cooc min_p_broader min_asymmetry concept_filter r =
     (narrower_count r \<ge> min_narrower_count \<and>
      cooc_count r \<ge> min_cooc \<and>
      p_broader_given_narrower r \<ge> min_p_broader \<and>
      asymmetry r \<ge> min_asymmetry \<and>
      (case concept_filter of
         None \<Rightarrow> True
       | Some s \<Rightarrow>
           s = [] \<or>
           sublist (strip (lower s)) (lower (narrower_name r)) \<or>
           sublist (strip (lower s)) (lower (broader_name r))))"

text \<open>The relationships that satisfy a filter set, in stored order, with no limit
  applied.\<close>

definition matching ::
  "engine \<Rightarrow> int \<Rightarrow> int \<Rightarrow> rat \<Rightarrow> rat \<Rightarrow> string option \<Rightarrow> relationship list" where
  "matching eng min_narrower_count min_cooc min_p_broader min_asymmetry concept_filter =
     filter (satisfies_filter min_narrower_count min_cooc min_p_broader min_asymmetry
               concept_filter)
       (relationships eng)"

text \<open>A list is totally ordered by a key, ascending or descending.\<close>

definition ordered_by :: "('a \<Rightarrow> 'k::linorder) \<Rightarrow> bool \<Rightarrow> 'a list \<Rightarrow> bool" where
  "ordered_by key desc xs =
     (if desc then sorted (rev (map key xs)) else sorted (map key xs))"


text \<open>Every concept of the engine as a suggestion entry, in table order.\<close>

definition all_suggestions :: "engine \<Rightarrow> suggestion list" where
  "all_suggestions eng =
     map (\<lambda>(cbid, name).
            \<lparr>sug_id = cbid, sug_name = name,
             sug_count = get_count (concept_counts eng) cbid\<rparr>)
       (concept_names eng)"



text \<open>The concept tables cover the relationships: every broader endpoint has a name and a
  count (the lookups \<open>build_hierarchy_tree\<close> makes for a root cannot raise).\<close>

definition tables_cover :: "engine \<Rightarrow> bool" where
  "tables_cover eng =
     list_all (\<lambda>r. map_of (concept_names eng) (broader_id r) \<noteq> None \<and>
                   map_of (concept_counts eng) (broader_id r) \<noteq> None)
       (relationships eng)"

subsection \<open>Example data\<close>

text \<open>Three concepts and three relationships; the first two relationships have the same
  asymmetry.\<close>

definition rel_ba :: relationship where
  "rel_ba =
     \<lparr>narrower_id = ''B'', broader_id = ''A'',
      narrower_name = ''Astrophysics'', broader_name = ''Astronomy'',
      narrower_count = 50, broader_count = 100, cooc_count = 20,
      p_broader_given_narrower = 4 / 5, p_narrower_given_broader = 1 / 5,
      asymmetry = 3\<rparr>"

definition rel_ca :: relationship where
  "rel_ca =
     \<lparr>narrower_id = ''C'', broader_id = ''A'',
      narrower_name = ''Cosmology'', broader_name = ''Astronomy'',
      narrower_count = 30, broader_count = 100, cooc_count = 15,
      p_broader_given_narrower = 3 / 5, p_narrower_given_broader = 3 / 20,
      asymmetry = 3\<rparr>"

definition rel_cb :: relationship where
  "rel_cb =
     \<lparr>narrower_id = ''C'', broader_id = ''B'',
      narrower_name = ''Cosmology'', broader_name = ''Astrophysics'',
      narrower_count = 30, broader_count = 50, cooc_count = 10,
      p_broader_given_narrower = 1 / 4, p_narrower_given_broader = 1 / 5,
      asymmetry = 1\<rparr>"

definition ex_engine :: engine where
  "ex_engine =
     \<lparr>concept_names = [(''A'', ''Astronomy''), (''B'', ''Astrophysics''), (''C'', ''Cosmology'')],
      concept_counts = [(''A'', 100), (''B'', 50), (''C'', 30)],
      total_citations = 1000,
      relationships = [rel_ba, rel_ca, rel_cb],
      loaded = True\<rparr>"

text \<open>A file system with one data file, whose document holds the example data, and a
  second file whose document has no \<open>relationships\<close> key.\<close>

definition ex_doc :: json_object where
  "ex_doc =
     \<lparr>doc_concept_names =
        Some [(''A'', ''Astronomy''), (''B'', ''Astrophysics''), (''C'', ''Cosmology'')],
      doc_concept_counts = Some [(''A'', 100), (''B'', 50), (''C'', 30)],
      doc_total_citations = Some 1000,
      doc_relationships = Some [rel_ba, rel_ca, rel_cb]\<rparr>"

definition ex_files :: "string \<Rightarrow> file_outcome" where
  "ex_files path =
     (if path = ''data.json'' then Parsed (JsonObject ex_doc)
      else if path = ''partial.json'' then
        Parsed (JsonObject (ex_doc\<lparr>doc_relationships := None\<rparr>))
      else Missing)"

text \<open>Data for the hierarchy. \<open>ex_edge b bc n nc a\<close> is a relationship between the
  broader concept \<open>b\<close> (cited \<open>bc\<close> times) and the narrower concept \<open>n\<close> (cited \<open>nc\<close>
  times) in which four fifths of the citations of \<open>n\<close> also cite \<open>b\<close>, with asymmetry
  \<open>a\<close>; \<open>ex_child\<close> is the entry \<open>build_hierarchy_tree\<close> makes of it. The concepts
  are named by their IDs.\<close>

definition ex_edge :: "string \<Rightarrow> int \<Rightarrow> string \<Rightarrow> int \<Rightarrow> rat \<Rightarrow> relationship" where
  "ex_edge b bc n nc a =
     \<lparr>narrower_id = n, broader_id = b, narrower_name = n, broader_name = b,
      narrower_count = nc, broader_count = bc, cooc_count = (4 * nc) div 5,
      p_broader_given_narrower = 4 / 5, p_narrower_given_broader = 4 / 5 / a,
      asymmetry = a\<rparr>"

definition ex_child :: "string \<Rightarrow> int \<Rightarrow> rat \<Rightarrow> child_entry" where
  "ex_child n nc a =
     \<lparr>child_id = n, child_name = n, child_count = nc, child_p = 4 / 5,
      child_asymmetry = a\<rparr>"

text \<open>An engine whose edges, admitted at the thresholds \<open>1/2, 1, 5, 10\<close>, hold the cycle
  A, B, A below the root R.\<close>

definition ex_cycle_engine :: engine where
  "ex_cycle_engine =
     \<lparr>concept_names = [(''R'', ''R''), (''A'', ''A''), (''B'', ''B'')],
      concept_counts = [(''R'', 40), (''A'', 20), (''B'', 20)],
      total_citations = 100,
      relationships =
        [ex_edge ''R'' 40 ''A'' 20 2, ex_edge ''A'' 20 ''B'' 20 1, ex_edge ''B'' 20 ''A'' 20 1],
      loaded = True\<rparr>"

definition ex_cycle_forest :: "root_tree list" where
  "ex_cycle_forest =
     [RootTree \<lparr>root_id = ''R'', root_name = ''R'', root_count = 40\<rparr>
        [Tree (ex_child ''A'' 20 2)
          [Tree (ex_child ''B'' 20 1) [Tree (ex_child ''A'' 20 1) []]]]]"

text \<open>An engine whose edges, admitted at the thresholds \<open>1/2, 2, 5, 10\<close>, are the chain
  n0, n1, ..., n7.\<close>

definition ex_chain_engine :: engine where
  "ex_chain_engine =
     \<lparr>concept_names =
        [(''n0'', ''n0''), (''n1'', ''n1''), (''n2'', ''n2''), (''n3'', ''n3''),
         (''n4'', ''n4''), (''n5'', ''n5''), (''n6'', ''n6''), (''n7'', ''n7'')],
      concept_counts =
        [(''n0'', 1280), (''n1'', 640), (''n2'', 320), (''n3'', 160),
         (''n4'', 80), (''n5'', 40), (''n6'', 20), (''n7'', 10)],
      total_citations = 5000,
      relationships =
        [ex_edge ''n0'' 1280 ''n1'' 640 2, ex_edge ''n1'' 640 ''n2'' 320 2,
         ex_edge ''n2'' 320 ''n3'' 160 2, ex_edge ''n3'' 160 ''n4'' 80 2,
         ex_edge ''n4'' 80 ''n5'' 40 2, ex_edge ''n5'' 40 ''n6'' 20 2,
         ex_edge ''n6'' 20 ''n7'' 10 2],
      loaded = True\<rparr>"

definition ex_chain_forest :: "root_tree list" where
  "ex_chain_forest =
     [RootTree \<lparr>root_id = ''n0'', root_name = ''n0'', root_count = 1280\<rparr>
        [Tree (ex_child ''n1'' 640 2) [Tree (ex_child ''n2'' 320 2)
          [Tree (ex_child ''n3'' 160 2) [Tree (ex_child ''n4'' 80 2)
            [Tree (ex_child ''n5'' 40 2) [Tree (ex_child ''n6'' 20 2) []]]]]]]]"





section \<open>Verification\<close>

subsection \<open>Facts about the built-ins\<close>

lemma set_py_sort: "set (py_sort key b xs) = set xs"
  by (simp add: py_sort_def)

lemma length_py_sort: "length (py_sort key b xs) = length xs"
  by (simp add: py_sort_def)

lemma mset_py_sort: "mset (py_sort key b xs) = mset xs"
  by (simp add: py_sort_def)


lemma py_sort_ordered: "ordered_by key b (py_sort key b xs)"
  by (simp add: py_sort_def ordered_by_def rev_map)

lemma length_slice_to:
  "int (length (slice_to xs limit)) =
     (if 0 \<le> limit then min (int (length xs)) limit else max 0 (int (length xs) + limit))"
  by (auto simp: slice_to_def)




subsection \<open>\<open>load_precomputed\<close>\<close>

lemma load_loaded: "loaded eng \<Longrightarrow> load_precomputed files path eng = Inr eng"
  by (simp add: load_precomputed_def)

lemma load_success_loaded:
  "load_precomputed files path eng = Inr eng' \<Longrightarrow> loaded eng'"
  by (auto simp: load_precomputed_def Let_def
      split: if_splits file_outcome.splits json_document.splits option.splits)

lemma load_success_contents:
  assumes "load_precomputed files path eng = Inr eng'" and "\<not> loaded eng"
  shows "files path =
           Parsed (JsonObject
             \<lparr>doc_concept_names = Some (concept_names eng'),
              doc_concept_counts = Some (concept_counts eng'),
              doc_total_citations = Some (total_citations eng'),
              doc_relationships = Some (relationships eng')\<rparr>)"
  using assms
  by (auto simp: load_precomputed_def Let_def
      split: file_outcome.splits json_document.splits option.splits)

text \<open>Claim C7 (idempotent load). After a call of \<open>load_precomputed\<close> that returns
  normally, a later call with any path, whatever the files then hold, returns the engine
  unchanged; and the tables of an engine that was loaded by the first call are exactly
  the four values of the document read by that call.\<close>

theorem load_idempotent:
  assumes "load_precomputed files path eng = Inr eng'"
  shows "load_precomputed files' path' eng' = Inr eng' \<and>
         (loaded eng \<or>
          files path =
            Parsed (JsonObject
              \<lparr>doc_concept_names = Some (concept_names eng'),
               doc_concept_counts = Some (concept_counts eng'),
               doc_total_citations = Some (total_citations eng'),
               doc_relationships = Some (relationships eng')\<rparr>))"
  using load_loaded [OF load_success_loaded [OF assms]] load_success_contents [OF assms]
  by blast

theorem load_idempotent_witness:
  "load_precomputed ex_files ''data.json'' init_engine = Inr ex_engine \<and>
   load_precomputed ex_files ''partial.json'' ex_engine = Inr ex_engine \<and>
   load_precomputed (\<lambda>p. Malformed) ''data.json'' ex_engine = Inr ex_engine"
proof -
  have first: "load_precomputed ex_files ''data.json'' init_engine = Inr ex_engine"
    by (simp add: load_precomputed_def ex_files_def ex_doc_def init_engine_def ex_engine_def)
  from load_idempotent [OF first, of ex_files "''partial.json''"]
    load_idempotent [OF first, of "\<lambda>p. Malformed" "''data.json''"] first
  show ?thesis by blast
qed




subsection \<open>\<open>get_filtered_relationships\<close>\<close>

lemma keeps_eq_satisfies:
  "keeps mnc mc mp ma (concept_filter_lower cf) = satisfies_filter mnc mc mp ma cf"
  by (rule ext)
    (auto simp: keeps_def satisfies_filter_def concept_filter_lower_def split: option.splits)


lemma length_sort_results: "length (sort_results sort_by b xs) = length xs"
  by (simp add: sort_results_def length_py_sort)



text \<open>Claim C4 (pagination consistency), as stated: the length of the page is
  \<open>min(total, limit)\<close> for every limit. It fails for a negative limit, which Python's
  slice \<open>results[:limit]\<close> counts from the end: with two matching relationships
  and limit \<open>-1\<close> the page has one item, and \<open>min(2, -1) = -1\<close>.\<close>

theorem pagination_negative_limit_counterexample:
  "get_filtered_relationships ex_engine 10 5 (3 / 10) (3 / 2) None ''asymmetry'' True (- 1)
     = ([rel_ba], 2) \<and>
   int (length [rel_ba]) \<noteq> min 2 (- 1)"
  by (simp add: get_filtered_relationships_def filtered_sorted_def sort_results_def
      py_sort_def keeps_def concept_filter_lower_def slice_to_def ex_engine_def
      rel_ba_def rel_ca_def rel_cb_def)

text \<open>Claim C4, amended: the total is the number of relationships satisfying the filter
  with no limit applied; the length of the page is \<open>min(total, limit)\<close> for a limit that
  is not negative, and \<open>max(0, total + limit)\<close> for a negative one.\<close>

theorem pagination_consistency:
  assumes "get_filtered_relationships eng mnc mc mp ma cf sort_by sort_desc limit = (page, n)"
  shows "n = int (length (matching eng mnc mc mp ma cf)) \<and>
         int (length page) = (if 0 \<le> limit then min n limit else max 0 (n + limit))"
  using assms
  by (auto simp: get_filtered_relationships_def Let_def filtered_sorted_def matching_def
      length_sort_results keeps_eq_satisfies length_slice_to)

theorem pagination_consistency_witness:
  "get_filtered_relationships ex_engine 10 5 (3 / 10) (3 / 2) None ''cooc_count'' False 1
     = ([rel_ca], 2) \<and>
   (2::int) = int (length (matching ex_engine 10 5 (3 / 10) (3 / 2) None)) \<and>
   int (length [rel_ca]) = min 2 1"
proof -
  have run: "get_filtered_relationships ex_engine 10 5 (3 / 10) (3 / 2) None ''cooc_count''
               False 1 = ([rel_ca], 2)"
    by (simp add: get_filtered_relationships_def filtered_sorted_def sort_results_def
        py_sort_def keeps_def concept_filter_lower_def slice_to_def ex_engine_def
        rel_ba_def rel_ca_def rel_cb_def)
  from pagination_consistency [OF run] run show ?thesis by simp
qed




subsection \<open>\<open>get_concept_tree\<close>\<close>

lemma directed_loop_fold:
  "fold (directed_step cid mp ma mc mcnt) rs (b, n) =
     (b @ filter (\<lambda>r. passes_filters mc mcnt r \<and> narrower_id r = cid \<and>
                       p_broader_given_narrower r \<ge> mp \<and> asymmetry r \<ge> ma) rs,
      n @ filter (\<lambda>r. passes_filters mc mcnt r \<and> narrower_id r \<noteq> cid \<and>
                       broader_id r = cid \<and>
                       p_broader_given_narrower r \<ge> mp \<and> asymmetry r \<ge> ma) rs)"
  by (induction rs arbitrary: b n) (simp_all add: directed_step_def)

lemma symmetric_loop_fold:
  "fold (symmetric_step cid ma mc) rs s =
     s @ filter (\<lambda>r. cooc_count r \<ge> mc \<and>
                      (narrower_id r = cid \<or> broader_id r = cid) \<and>
                      asymmetry r < ma \<and> p_broader_given_narrower r \<ge> float_0_2) rs"
  by (induction rs arbitrary: s) (auto simp: symmetric_step_def)

lemma mset_take_subseteq: "mset (take n xs) \<subseteq># mset xs"
proof -
  have "mset xs = mset (take n xs) + mset (drop n xs)"
    by (simp flip: mset_append)
  then show ?thesis by simp
qed

lemma three_filters_subseteq:
  assumes "\<And>x. \<not> (P x \<and> Q x)" "\<And>x. \<not> (P x \<and> R x)" "\<And>x. \<not> (Q x \<and> R x)"
  shows "mset (filter P xs) + mset (filter Q xs) + mset (filter R xs) \<subseteq># mset xs"
proof (rule mset_subset_eqI)
  fix a
  from assms [of a]
  show "count (mset (filter P xs) + mset (filter Q xs) + mset (filter R xs)) a
          \<le> count (mset xs) a"
    by (cases "P a"; cases "Q a"; cases "R a") simp_all
qed

text \<open>Claim C6 (neighbourhood partition). For a resolved concept, the lists \<open>broader\<close>,
  \<open>narrower\<close> and \<open>symmetric\<close> of the response are pairwise disjoint, and taken
  together they use each stored relationship at most as often as it is stored: no
  relationship is counted twice in one query.\<close>

theorem neighborhood_partition:
  assumes "get_concept_tree eng name mp ma mc mcnt =
             Inr (ConceptResponse cid cname ccount broader narrower symmetric)"
  shows "set broader \<inter> set narrower = {} \<and>
         set broader \<inter> set symmetric = {} \<and>
         set narrower \<inter> set symmetric = {} \<and>
         mset broader + mset narrower + mset symmetric \<subseteq># mset (relationships eng)"
proof -
  let ?rs = "relationships eng"
  let ?B = "\<lambda>r. passes_filters mc mcnt r \<and> narrower_id r = cid \<and>
                 p_broader_given_narrower r \<ge> mp \<and> asymmetry r \<ge> ma"
  let ?N = "\<lambda>r. passes_filters mc mcnt r \<and> narrower_id r \<noteq> cid \<and> broader_id r = cid \<and>
                 p_broader_given_narrower r \<ge> mp \<and> asymmetry r \<ge> ma"
  let ?S = "\<lambda>r. cooc_count r \<ge> mc \<and> (narrower_id r = cid \<or> broader_id r = cid) \<and>
                 asymmetry r < ma \<and> p_broader_given_narrower r \<ge> float_0_2"
  from assms have
    b: "broader = take 50 (py_sort p_broader_given_narrower True (filter ?B ?rs))" and
    n: "narrower = take 50 (py_sort p_broader_given_narrower True (filter ?N ?rs))" and
    s: "symmetric = take 30 (py_sort cooc_count True (filter ?S ?rs))"
    by (auto simp: get_concept_tree_def Let_def directed_loop_def symmetric_loop_def
        directed_loop_fold symmetric_loop_fold split: if_splits option.splits)
  have sb: "set broader \<subseteq> {r. ?B r}"
    unfolding b using set_take_subset [of 50 "py_sort p_broader_given_narrower True (filter ?B ?rs)"]
    by (auto simp: set_py_sort)
  have sn: "set narrower \<subseteq> {r. ?N r}"
    unfolding n using set_take_subset [of 50 "py_sort p_broader_given_narrower True (filter ?N ?rs)"]
    by (auto simp: set_py_sort)
  have ss: "set symmetric \<subseteq> {r. ?S r}"
    unfolding s using set_take_subset [of 30 "py_sort cooc_count True (filter ?S ?rs)"]
    by (auto simp: set_py_sort)
  have d1: "set broader \<inter> set narrower = {}" using sb sn by fastforce
  have d2: "set broader \<inter> set symmetric = {}" using sb ss by fastforce
  have d3: "set narrower \<inter> set symmetric = {}" using sn ss by fastforce
  have mb: "mset broader \<subseteq># mset (filter ?B ?rs)"
    unfolding b using mset_take_subseteq [of 50 "py_sort p_broader_given_narrower True (filter ?B ?rs)"]
    by (simp only: mset_py_sort)
  have mn: "mset narrower \<subseteq># mset (filter ?N ?rs)"
    unfolding n using mset_take_subseteq [of 50 "py_sort p_broader_given_narrower True (filter ?N ?rs)"]
    by (simp only: mset_py_sort)
  have ms: "mset symmetric \<subseteq># mset (filter ?S ?rs)"
    unfolding s using mset_take_subseteq [of 30 "py_sort cooc_count True (filter ?S ?rs)"]
    by (simp only: mset_py_sort)
  have "mset broader + mset narrower + mset symmetric
          \<subseteq># mset (filter ?B ?rs) + mset (filter ?N ?rs) + mset (filter ?S ?rs)"
    by (intro subset_mset.add_mono mb mn ms)
  moreover
  have "mset (filter ?B ?rs) + mset (filter ?N ?rs) + mset (filter ?S ?rs) \<subseteq># mset ?rs"
    by (rule three_filters_subseteq) auto
  ultimately have "mset broader + mset narrower + mset symmetric \<subseteq># mset ?rs"
    by (rule subset_mset.order_trans)
  with d1 d2 d3 show ?thesis by simp
qed

theorem neighborhood_partition_witness:
  "get_concept_tree ex_engine ''astrophysics'' (3 / 10) (3 / 2) 3 5 =
     Inr (ConceptResponse ''B'' ''Astrophysics'' 50 [rel_ba] [] [rel_cb]) \<and>
   set [rel_ba] \<inter> set [rel_cb] = {} \<and>
   mset [rel_ba] + mset [] + mset [rel_cb] \<subseteq># mset (relationships ex_engine)"
proof -
  have run: "get_concept_tree ex_engine ''astrophysics'' (3 / 10) (3 / 2) 3 5 =
               Inr (ConceptResponse ''B'' ''Astrophysics'' 50 [rel_ba] [] [rel_cb])"
    by code_simp
  from neighborhood_partition [OF run] run show ?thesis by blast
qed

lemma lower_char_space: "is_space c \<Longrightarrow> lower_char c = c"
  by (auto simp: is_space_def lower_char_def Let_def)

lemma strip_lower_whitespace:
  assumes "\<forall>c\<in>set s. is_space c"
  shows "strip (lower s) = []"
proof -
  from assms have l: "lower s = s"
    by (simp add: lower_def lower_char_space map_idI)
  from assms have d: "dropWhile is_space s = []" by simp
  show ?thesis unfolding strip_def l d by simp
qed

lemma lower_eq_Nil: "lower n = [] \<longleftrightarrow> n = []"
  by (simp add: lower_def)

lemma find_concept_id_none:
  "\<forall>(cbid, n)\<in>set names. n \<noteq> [] \<Longrightarrow> find_concept_id names [] = None"
  by (induction names) (auto simp: lower_eq_Nil)

lemma find_matches_empty_query: "find_matches eng [] = all_suggestions eng"
  by (simp add: find_matches_def all_suggestions_def case_prod_unfold)

text \<open>Claim C10 (whitespace-only name). When no concept has an empty display name, a
  name made of whitespace only does not fail and resolves no concept: the call returns
  the suggestions response whose list is the first \<open>min(20, number of concepts)\<close> entries
  of all concepts sorted by descending citation count, and the route does not reject the
  request unless the name is the empty string.\<close>

theorem whitespace_name_suggestions:
  assumes "\<forall>c\<in>set name. is_space c"
    and "\<forall>(cbid, n)\<in>set (concept_names eng). n \<noteq> []"
  shows "get_concept_tree eng name mp ma mc mcnt =
           Inr (SuggestionsResponse
                  (take 20 (py_sort sug_count True (all_suggestions eng))) [] [] []) \<and>
         length (take 20 (py_sort sug_count True (all_suggestions eng))) =
           min 20 (length (concept_names eng)) \<and>
         ordered_by sug_count True (py_sort sug_count True (all_suggestions eng)) \<and>
         mset (py_sort sug_count True (all_suggestions eng)) = mset (all_suggestions eng) \<and>
         (name = [] \<or>
          api_concept_tree eng name mp ma mc mcnt =
            Ok (SuggestionsResponse
                  (take 20 (py_sort sug_count True (all_suggestions eng))) [] [] []))"
proof -
  have q: "strip (lower name) = []"
    using assms(1) by (rule strip_lower_whitespace)
  have run: "get_concept_tree eng name mp ma mc mcnt =
           Inr (SuggestionsResponse
                  (take 20 (py_sort sug_count True (all_suggestions eng))) [] [] [])"
    by (simp add: get_concept_tree_def q find_concept_id_none [OF assms(2)]
        find_matches_empty_query)
  have len: "length (take 20 (py_sort sug_count True (all_suggestions eng))) =
           min 20 (length (concept_names eng))"
    by (simp add: length_py_sort all_suggestions_def)
  from run len show ?thesis
    by (simp add: api_concept_tree_def py_sort_ordered mset_py_sort)
qed

theorem whitespace_name_suggestions_witness:
  "list_all is_space '' '' \<and>
   list_all (\<lambda>(cbid, n). n \<noteq> []) (concept_names ex_engine) \<and>
   get_concept_tree ex_engine '' '' (3 / 10) (3 / 2) 3 5 =
     Inr (SuggestionsResponse
            [\<lparr>sug_id = ''A'', sug_name = ''Astronomy'', sug_count = 100\<rparr>,
             \<lparr>sug_id = ''B'', sug_name = ''Astrophysics'', sug_count = 50\<rparr>,
             \<lparr>sug_id = ''C'', sug_name = ''Cosmology'', sug_count = 30\<rparr>] [] [] []) \<and>
   api_concept_tree ex_engine '' '' (3 / 10) (3 / 2) 3 5 =
     Ok (SuggestionsResponse
            [\<lparr>sug_id = ''A'', sug_name = ''Astronomy'', sug_count = 100\<rparr>,
             \<lparr>sug_id = ''B'', sug_name = ''Astrophysics'', sug_count = 50\<rparr>,
             \<lparr>sug_id = ''C'', sug_name = ''Cosmology'', sug_count = 30\<rparr>] [] [] [])"
proof -
  have ws: "\<forall>c\<in>set '' ''. is_space c"
    by (simp add: is_space_def)
  have names: "\<forall>(cbid, n)\<in>set (concept_names ex_engine). n \<noteq> []"
    by (simp add: ex_engine_def)
  have top: "take 20 (py_sort sug_count True (all_suggestions ex_engine)) =
     [\<lparr>sug_id = ''A'', sug_name = ''Astronomy'', sug_count = 100\<rparr>,
      \<lparr>sug_id = ''B'', sug_name = ''Astrophysics'', sug_count = 50\<rparr>,
      \<lparr>sug_id = ''C'', sug_name = ''Cosmology'', sug_count = 30\<rparr>]"
    by (simp add: py_sort_def all_suggestions_def ex_engine_def get_count_def)
  from whitespace_name_suggestions [OF ws names, of "3 / 10" "3 / 2" 3 5] ws names
  show ?thesis
    unfolding top by (simp add: list_all_iff)
qed

subsection \<open>\<open>build_hierarchy_tree\<close>\<close>

lemma build_subtree_guard:
  "node \<in> visited \<or> depth > 5 \<Longrightarrow> build_subtree co node depth visited = []"
  by (simp add: build_subtree.simps)

lemma build_subtree_elem:
  assumes "t \<in> set (build_subtree co node depth visited)"
  obtains child where "child \<in> set (dict_get co node)"
    and "t = Tree child (build_subtree co (child_id child) (depth + 1) (insert node visited))"
    and "node \<notin> visited" and "depth \<le> 5"
  using assms
  by (subst (asm) build_subtree.simps) (auto split: if_splits)

lemma tree_paths_nonempty: "p \<in> set (tree_paths t) \<Longrightarrow> p \<noteq> []"
  by (cases t) (auto split: if_splits)

lemma build_subtree_paths:
  "t \<in> set (build_subtree co node depth visited) \<Longrightarrow> p \<in> set (tree_paths t) \<Longrightarrow>
     distinct (butlast p) \<and> set (butlast p) \<inter> insert node visited = {}"
proof (induction co node depth visited arbitrary: t p rule: build_subtree.induct)
  case (1 co node depth visited)
  from "1.prems"(1) obtain child where
    child: "child \<in> set (dict_get co node)" and
    t: "t = Tree child (build_subtree co (child_id child) (depth + 1) (insert node visited))" and
    guard: "node \<notin> visited" "depth \<le> 5"
    by (rule build_subtree_elem)
  let ?sub = "build_subtree co (child_id child) (depth + 1) (insert node visited)"
  show ?case
  proof (cases "?sub = []")
    case True
    with t "1.prems"(2) show ?thesis by simp
  next
    case False
    with t "1.prems"(2) obtain t' p' where
      t': "t' \<in> set ?sub" and p': "p' \<in> set (tree_paths t')" and p: "p = child_id child # p'"
      by auto
    from False have fresh: "child_id child \<notin> insert node visited"
      using build_subtree_guard [of "child_id child" "insert node visited" "depth + 1" co]
      by blast
    from guard have "\<not> (node \<in> visited \<or> 5 < depth)" by simp
    from "1.IH" [OF this child t' p']
    have ih: "distinct (butlast p')"
      "set (butlast p') \<inter> insert (child_id child) (insert node visited) = {}"
      by simp_all
    from p' have "p' \<noteq> []" by (rule tree_paths_nonempty)
    with p have "butlast p = child_id child # butlast p'" by simp
    with ih fresh show ?thesis by auto
  qed
qed

lemma build_subtree_depth:
  "t \<in> set (build_subtree co node depth visited) \<Longrightarrow>
     (i, k) \<in> set (tree_nodes (depth + 1) t) \<Longrightarrow> k \<le> 6"
proof (induction co node depth visited arbitrary: t rule: build_subtree.induct)
  case (1 co node depth visited)
  from "1.prems"(1) obtain child where
    child: "child \<in> set (dict_get co node)" and
    t: "t = Tree child (build_subtree co (child_id child) (depth + 1) (insert node visited))" and
    guard: "node \<notin> visited" "depth \<le> 5"
    by (rule build_subtree_elem)
  from guard have g: "\<not> (node \<in> visited \<or> 5 < depth)" by simp
  from "1.prems"(2) t consider "k = depth + 1"
    | t' where "t' \<in> set (build_subtree co (child_id child) (depth + 1) (insert node visited))"
        "(i, k) \<in> set (tree_nodes (depth + 1 + 1) t')"
    by auto
  then show ?case
  proof cases
    case 1
    with guard show ?thesis by simp
  next
    case 2
    then show ?thesis by (rule "1.IH" [OF g child])
  qed
qed

lemma attach_subtrees_elem:
  "RootTree r ts \<in> set (attach_subtrees co roots) \<Longrightarrow>
     ts = build_subtree co (root_id r) 0 {} \<and> ts \<noteq> []"
  by (induction roots) (auto simp: Let_def split: if_splits)

lemma build_hierarchy_tree_elem:
  assumes "build_hierarchy_tree eng mp ma mc mcnt = Inr forest"
    and "RootTree r ts \<in> set forest"
  obtains co where "ts = build_subtree co (root_id r) 0 {}" and "ts \<noteq> []"
proof -
  from assms obtain co roots where "forest = attach_subtrees co roots"
    by (auto simp: build_hierarchy_tree_def Let_def split: prod.splits sum.splits)
  with assms(2) attach_subtrees_elem [of r ts co roots] that show ?thesis by blast
qed

lemma dict_append_keys: "fst ` set (dict_append k v d) = insert k (fst ` set d)"
  by (induction k v d rule: dict_append.induct) (simp_all add: insert_commute)

lemma admit_loop_keys:
  "fst ` set (fst (fold (admit_step mp ma mc mcnt) rs st))
     \<subseteq> fst ` set (fst st) \<union> broader_id ` set rs"
proof (induction rs arbitrary: st)
  case Nil
  show ?case by simp
next
  case (Cons r rs)
  have "fst ` set (fst (admit_step mp ma mc mcnt r st))
          \<subseteq> insert (broader_id r) (fst ` set (fst st))"
    by (cases st) (simp add: admit_step_def dict_append_keys subset_insertI)
  with Cons [of "admit_step mp ma mc mcnt r st"] show ?case by auto
qed

lemma collect_roots_returns:
  assumes "\<forall>k\<in>set keys. map_of (concept_names eng) k \<noteq> None \<and>
             map_of (concept_counts eng) k \<noteq> None"
  shows "\<exists>roots. collect_roots eng hp keys = Inr roots"
  using assms by (induction keys) auto

lemma build_hierarchy_tree_returns:
  assumes "tables_cover eng"
  shows "\<exists>forest. build_hierarchy_tree eng mp ma mc mcnt = Inr forest"
proof -
  obtain co hp where loop: "admit_loop mp ma mc mcnt (relationships eng) = (co, hp)"
    by (cases "admit_loop mp ma mc mcnt (relationships eng)")
  have "fst ` set co \<subseteq> broader_id ` set (relationships eng)"
    using admit_loop_keys [of mp ma mc mcnt "relationships eng" "([], {})"] loop
    by (simp add: admit_loop_def)
  moreover have "map fst (sort_children co) = map fst co"
    by (simp add: sort_children_def case_prod_unfold)
  ultimately have "\<forall>k\<in>set (map fst (sort_children co)).
      map_of (concept_names eng) k \<noteq> None \<and> map_of (concept_counts eng) k \<noteq> None"
    using assms by (auto simp: tables_cover_def list_all_iff)
  then obtain roots where "collect_roots eng hp (map fst (sort_children co)) = Inr roots"
    using collect_roots_returns by blast
  with loop show ?thesis by (simp add: build_hierarchy_tree_def)
qed

text \<open>Claim C2 (forest acyclic-safety), as stated: no path from a root to a leaf holds the
  same concept ID twice. It fails when a cycle is reachable from a root: the guard of
  \<open>build_subtree\<close> is tested inside the call for a child, after the parent has appended
  that child, so a concept already on the path is appended once more, as a leaf. With
  the admitted edges R to A, A to B and B to A (two concepts of equal counts, admitted in
  both directions at the asymmetry threshold 1) the forest holds the path R, A, B, A.\<close>

theorem forest_repeats_id_counterexample:
  "build_hierarchy_tree ex_cycle_engine (1 / 2) 1 5 10 = Inr ex_cycle_forest \<and>
   forest_paths ex_cycle_forest = [[''R'', ''A'', ''B'', ''A'']] \<and>
   \<not> distinct [''R'', ''A'', ''B'', ''A'']"
  by code_simp

lemma forest_path_butlast:
  assumes "build_hierarchy_tree eng mp ma mc mcnt = Inr forest"
    and "path \<in> set (forest_paths forest)"
  shows "distinct (butlast path)"
proof -
  from assms(2) obtain rt where rt: "rt \<in> set forest" and path: "path \<in> set (root_paths rt)"
    by (auto simp: forest_paths_def)
  obtain r ts where rt_eq: "rt = RootTree r ts" by (cases rt)
  from assms(1) rt obtain co where
    ts: "ts = build_subtree co (root_id r) 0 {}" and ne: "ts \<noteq> []"
    unfolding rt_eq by (rule build_hierarchy_tree_elem)
  from path ne obtain t p where
    t: "t \<in> set ts" and p: "p \<in> set (tree_paths t)" and path_eq: "path = root_id r # p"
    unfolding rt_eq by auto
  from build_subtree_paths [OF t [unfolded ts] p]
  have "distinct (butlast p)" "root_id r \<notin> set (butlast p)" by auto
  moreover from p have "p \<noteq> []" by (rule tree_paths_nonempty)
  ultimately show ?thesis by (simp add: path_eq)
qed

text \<open>Claim C2, amended: \<open>build_hierarchy_tree\<close> terminates for every threshold
  configuration, cycles among the admitted edges included (\<open>build_subtree\<close> is a total
  function: its depth argument grows with every call and is bounded), and it returns a
  forest whenever the concept tables cover the relationships. On every path from a root
  to a leaf of the returned forest the concept IDs of all nodes but the last are pairwise
  distinct: only a leaf can repeat an ID of its path, and a node that repeats one is
  never expanded.\<close>

theorem forest_paths_distinct_butlast:
  "(tables_cover eng \<longrightarrow> \<not> isl (build_hierarchy_tree eng mp ma mc mcnt)) \<and>
   (\<forall>forest path.
      build_hierarchy_tree eng mp ma mc mcnt = Inr forest \<and>
      path \<in> set (forest_paths forest) \<longrightarrow> distinct (butlast path))"
proof (intro conjI impI allI)
  assume "tables_cover eng"
  then obtain forest where "build_hierarchy_tree eng mp ma mc mcnt = Inr forest"
    using build_hierarchy_tree_returns by blast
  then show "\<not> isl (build_hierarchy_tree eng mp ma mc mcnt)" by simp
next
  fix forest path
  assume "build_hierarchy_tree eng mp ma mc mcnt = Inr forest \<and>
          path \<in> set (forest_paths forest)"
  then show "distinct (butlast path)"
    using forest_path_butlast by blast
qed

theorem forest_paths_distinct_butlast_witness:
  "tables_cover ex_cycle_engine \<and>
   build_hierarchy_tree ex_cycle_engine (1 / 2) 1 5 10 = Inr ex_cycle_forest \<and>
   [''R'', ''A'', ''B'', ''A''] \<in> set (forest_paths ex_cycle_forest) \<and>
   distinct (butlast [''R'', ''A'', ''B'', ''A''])"
proof -
  have cover: "tables_cover ex_cycle_engine"
    by code_simp
  have run: "build_hierarchy_tree ex_cycle_engine (1 / 2) 1 5 10 = Inr ex_cycle_forest"
    by code_simp
  have path: "[''R'', ''A'', ''B'', ''A''] \<in> set (forest_paths ex_cycle_forest)"
    by code_simp
  from forest_paths_distinct_butlast [of ex_cycle_engine "1 / 2" 1 5 10] cover run path
  show ?thesis by blast
qed

text \<open>Claim C3 (depth cap), as stated: no node lies deeper than depth 5. It fails on a
  chain of admitted edges: the guard \<open>depth > 5\<close> is tested inside the call for a child,
  after the parent at depth 5 has appended that child, so the chain n0, ..., n7 gives a
  tree whose node n6 lies at depth 6 (and n7 is left out).\<close>

theorem forest_depth_six_counterexample:
  "build_hierarchy_tree ex_chain_engine (1 / 2) 2 5 10 = Inr ex_chain_forest \<and>
   forest_nodes ex_chain_forest =
     [(''n0'', 0), (''n1'', 1), (''n2'', 2), (''n3'', 3), (''n4'', 4), (''n5'', 5),
      (''n6'', 6)]"
  by code_simp

text \<open>Claim C3, amended: every node of the returned forest lies at depth at most 6 from
  its root (roots at depth 0, depths 0..6 inclusive, at most 7 levels).\<close>

theorem forest_depth_at_most_six:
  assumes "build_hierarchy_tree eng mp ma mc mcnt = Inr forest"
    and "(i, k) \<in> set (forest_nodes forest)"
  shows "k \<le> 6"
proof -
  from assms(2) obtain rt where rt: "rt \<in> set forest" and ik: "(i, k) \<in> set (root_nodes rt)"
    by (auto simp: forest_nodes_def)
  obtain r ts where rt_eq: "rt = RootTree r ts" by (cases rt)
  from assms(1) rt obtain co where ts: "ts = build_subtree co (root_id r) 0 {}"
    unfolding rt_eq by (rule build_hierarchy_tree_elem)
  from ik consider "k = 0" | t where "t \<in> set ts" "(i, k) \<in> set (tree_nodes 1 t)"
    unfolding rt_eq by auto
  then show ?thesis
  proof cases
    case 1
    then show ?thesis by simp
  next
    case 2
    with build_subtree_depth [of t co "root_id r" 0 "{}" i k] ts show ?thesis by simp
  qed
qed

theorem forest_depth_at_most_six_witness:
  "build_hierarchy_tree ex_chain_engine (1 / 2) 2 5 10 = Inr ex_chain_forest \<and>
   (''n6'', 6) \<in> set (forest_nodes ex_chain_forest) \<and> (6::nat) \<le> 6"
proof -
  have run: "build_hierarchy_tree ex_chain_engine (1 / 2) 2 5 10 = Inr ex_chain_forest"
    by code_simp
  have node: "(''n6'', 6) \<in> set (forest_nodes ex_chain_forest)"
    by code_simp
  from forest_depth_at_most_six [OF run node] run node show ?thesis by blast
qed

subsection \<open>The export\<close>


















end
